theory Spec2Isabelle
  imports Complex_Main "HOL-Library.Word"
begin

section \<open>Values and build configuration\<close>

text \<open>
  The unit verified is \<^verbatim>\<open>src/PdfPixel.PdfPanel.Web/Native/emscripten.c\<close>: seven C
  functions and one inline JavaScript function that wrap the emscripten runtime. The
  runtime itself (\<^verbatim>\<open>emscripten/threading.h\<close>, the WebGL part of the HTML5 API) and
  the browser are not part of the repository; they enter the model as records of
  operations, so that every statement about a wrapper holds for whatever the runtime
  does, unless a hypothesis says otherwise.

  A C \<^verbatim>\<open>int\<close> is a 32-bit word. The calling thread, implicit in C, is an explicit
  argument. A callable is a state transformer that may fail to return (\<open>None\<close>).
\<close>

type_synonym c_int = "32 word"

type_synonym thread = nat

type_synonym 's callable = "'s \<Rightarrow> 's option"

text \<open>\<^verbatim>\<open>#ifdef __wasm64__\<close> (lines 18-24): the two builds of the file.\<close>

datatype wasm_target = Wasm32 | Wasm64

text \<open>
  \<^verbatim>\<open>typedef int64_t em_ptr_int_t\<close> under \<^verbatim>\<open>__wasm64__\<close>, \<^verbatim>\<open>typedef int32_t em_ptr_int_t\<close>
  otherwise. A value of the type is a mathematical integer in the signed range of
  that width.
\<close>

fun em_ptr_bits :: "wasm_target \<Rightarrow> nat" where
  "em_ptr_bits Wasm64 = 64"
| "em_ptr_bits Wasm32 = 32"

definition em_ptr_int_t :: "wasm_target \<Rightarrow> int \<Rightarrow> bool" where
  "em_ptr_int_t tgt v =
     (- (2 ^ (em_ptr_bits tgt - 1)) \<le> v \<and> v < 2 ^ (em_ptr_bits tgt - 1))"

section \<open>The threading interface of the runtime\<close>

text \<open>
  The signature codes the file passes to the runtime. Lines 14-16 give their meaning:
  \<^verbatim>\<open>EM_FUNC_SIG_VI\<close> announces one 32-bit integer argument, \<^verbatim>\<open>EM_FUNC_SIG_VJ\<close> one 64-bit
  integer argument; \<^verbatim>\<open>EM_FUNC_SIG_V\<close> announces none.
\<close>

datatype em_func_sig = EM_FUNC_SIG_V | EM_FUNC_SIG_VI | EM_FUNC_SIG_VJ

fun em_sig_params :: "em_func_sig \<Rightarrow> nat list" where
  "em_sig_params EM_FUNC_SIG_V = []"
| "em_sig_params EM_FUNC_SIG_VI = [32]"
| "em_sig_params EM_FUNC_SIG_VJ = [64]"

text \<open>\<^verbatim>\<open>#define EM_FUNC_SIG_VPTR\<close>, lines 19 and 22.\<close>

fun EM_FUNC_SIG_VPTR :: "wasm_target \<Rightarrow> em_func_sig" where
  "EM_FUNC_SIG_VPTR Wasm64 = EM_FUNC_SIG_VJ"
| "EM_FUNC_SIG_VPTR Wasm32 = EM_FUNC_SIG_VI"

text \<open>
  A function pointer handed to the runtime: \<^verbatim>\<open>void (*)(void)\<close> or
  \<^verbatim>\<open>void (*)(em_ptr_int_t)\<close>.
\<close>

datatype 's em_func =
  Func_v "'s callable"
| Func_vptr "int \<Rightarrow> 's callable"

text \<open>
  The operations of \<^verbatim>\<open>emscripten/threading.h\<close> that the file calls. The two dispatch
  operations receive the calling thread, the signature code, the function pointer and
  the variadic arguments; \<open>None\<close> is a call that never returns to its caller.
\<close>

record 's emscripten_threading =
  emscripten_is_main_browser_thread :: "thread \<Rightarrow> bool"
  emscripten_sync_run_in_main_runtime_thread ::
    "thread \<Rightarrow> em_func_sig \<Rightarrow> 's em_func \<Rightarrow> int list \<Rightarrow> 's \<Rightarrow> 's option"
  emscripten_async_run_in_main_runtime_thread ::
    "thread \<Rightarrow> em_func_sig \<Rightarrow> 's em_func \<Rightarrow> int list \<Rightarrow> 's \<Rightarrow> 's option"

text \<open>
  The contract the file relies on for a dispatched request (lines 14-16 pair each
  signature code with the integer type it carries): on the receiving side each
  variadic argument is read at the width its signature announces (a wider value is cut
  to that width, two's complement), and the function pointer is called with what was
  read. A request whose signature, function type and argument count disagree has no
  defined outcome. The dispatch operations of a runtime are not assumed to follow it.
\<close>

definition em_va_arg :: "nat \<Rightarrow> int \<Rightarrow> int" where
  "em_va_arg bits v = signed_take_bit (bits - 1) v"

fun em_call :: "em_func_sig \<Rightarrow> 's em_func \<Rightarrow> int list \<Rightarrow> 's \<Rightarrow> 's option" where
  "em_call sig (Func_v f) [] s = (if em_sig_params sig = [] then f s else None)"
| "em_call sig (Func_vptr f) [a] s =
     (case em_sig_params sig of [bits] \<Rightarrow> f (em_va_arg bits a) s | _ \<Rightarrow> None)"
| "em_call sig func args s = None"

section \<open>The dispatch wrappers (lines 6-46)\<close>

definition dotnet_sync_main_thread ::
  "'s emscripten_threading \<Rightarrow> thread \<Rightarrow> 's callable \<Rightarrow> 's \<Rightarrow> 's option" where
  "dotnet_sync_main_thread rt t func s =
     (if emscripten_is_main_browser_thread rt t then func s
      else emscripten_sync_run_in_main_runtime_thread rt t EM_FUNC_SIG_V (Func_v func) [] s)"

definition dotnet_sync_main_thread_arg ::
  "wasm_target \<Rightarrow> 's emscripten_threading \<Rightarrow> thread \<Rightarrow> (int \<Rightarrow> 's callable) \<Rightarrow> int \<Rightarrow>
     's \<Rightarrow> 's option" where
  "dotnet_sync_main_thread_arg tgt rt t func arg s =
     (if emscripten_is_main_browser_thread rt t then func arg s
      else emscripten_sync_run_in_main_runtime_thread rt t
             (EM_FUNC_SIG_VPTR tgt) (Func_vptr func) [arg] s)"

definition dotnet_async_run_in_main_runtime_thread ::
  "wasm_target \<Rightarrow> 's emscripten_threading \<Rightarrow> thread \<Rightarrow> (int \<Rightarrow> 's callable) \<Rightarrow> int \<Rightarrow>
     's \<Rightarrow> 's option" where
  "dotnet_async_run_in_main_runtime_thread tgt rt t func arg s =
     (if emscripten_is_main_browser_thread rt t then func arg s
      else emscripten_async_run_in_main_runtime_thread rt t
             (EM_FUNC_SIG_VPTR tgt) (Func_vptr func) [arg] s)"

section \<open>The WebGL interface of the runtime\<close>

text \<open>
  \<^verbatim>\<open>EMSCRIPTEN_WEBGL_CONTEXT_HANDLE\<close> is an integer type declared by the runtime's
  headers: a word whose width \<open>'h\<close> is left open. \<^verbatim>\<open>EMSCRIPTEN_RESULT\<close> is an \<^verbatim>\<open>int\<close>.
  The attribute structure is a record with the eleven fields the file writes, each
  with the type of the expression assigned to it; the fields it leaves alone live in
  the record's extension \<open>'x\<close>.
\<close>

datatype EMSCRIPTEN_WEBGL_CONTEXT_PROXY_MODE =
  EMSCRIPTEN_WEBGL_CONTEXT_PROXY_DISALLOW
| EMSCRIPTEN_WEBGL_CONTEXT_PROXY_FALLBACK
| EMSCRIPTEN_WEBGL_CONTEXT_PROXY_ALWAYS

record EmscriptenWebGLContextAttributes =
  alpha :: c_int
  depth :: c_int
  stencil :: c_int
  antialias :: c_int
  majorVersion :: c_int
  minorVersion :: c_int
  enableExtensionsByDefault :: c_int
  renderViaOffscreenBackBuffer :: c_int
  explicitSwapControl :: c_int
  preserveDrawingBuffer :: c_int
  proxyContextToMainThread :: EMSCRIPTEN_WEBGL_CONTEXT_PROXY_MODE

record ('h, 's) emscripten_webgl_current =
  emscripten_webgl_get_current_context :: "thread \<Rightarrow> 's \<Rightarrow> 'h"
  emscripten_webgl_make_context_current :: "thread \<Rightarrow> 'h \<Rightarrow> 's \<Rightarrow> c_int \<times> 's"

record ('h, 'x, 's) emscripten_webgl_create =
  emscripten_webgl_init_context_attributes :: "'x EmscriptenWebGLContextAttributes_scheme"
  emscripten_webgl_create_context ::
    "thread \<Rightarrow> string \<Rightarrow> 'x EmscriptenWebGLContextAttributes_scheme \<Rightarrow> 's \<Rightarrow> 'h \<times> 's"

section \<open>The WebGL wrappers (lines 50-80)\<close>

text \<open>
  The cast \<^verbatim>\<open>(int)\<close> keeps the low 32 bits of a handle; the cast
  \<^verbatim>\<open>(EMSCRIPTEN_WEBGL_CONTEXT_HANDLE)\<close> of a signed \<^verbatim>\<open>int\<close> extends its sign.
\<close>

definition dotnet_webgl_get_current_context ::
  "('h::len word, 's) emscripten_webgl_current \<Rightarrow> thread \<Rightarrow> 's \<Rightarrow> c_int" where
  "dotnet_webgl_get_current_context rt t s =
     ucast (emscripten_webgl_get_current_context rt t s)"

definition dotnet_webgl_make_context_current ::
  "('h::len word, 's) emscripten_webgl_current \<Rightarrow> thread \<Rightarrow> c_int \<Rightarrow> 's \<Rightarrow> c_int \<times> 's" where
  "dotnet_webgl_make_context_current rt t ctx s =
     emscripten_webgl_make_context_current rt t (scast ctx) s"

text \<open>Lines 66-78: the attribute structure handed to the runtime.\<close>

definition context_attributes ::
  "'x EmscriptenWebGLContextAttributes_scheme \<Rightarrow> c_int \<Rightarrow> c_int \<Rightarrow> c_int \<Rightarrow> c_int \<Rightarrow> c_int \<Rightarrow>
     'x EmscriptenWebGLContextAttributes_scheme" where
  "context_attributes attrs p_alpha p_depth p_stencil p_antialias p_majorVersion =
     attrs\<lparr>alpha := p_alpha,
           depth := p_depth,
           stencil := p_stencil,
           antialias := p_antialias,
           majorVersion := p_majorVersion,
           minorVersion := 0,
           enableExtensionsByDefault := 1,
           renderViaOffscreenBackBuffer := 0,
           explicitSwapControl := 0,
           preserveDrawingBuffer := 1,
           proxyContextToMainThread := EMSCRIPTEN_WEBGL_CONTEXT_PROXY_ALWAYS\<rparr>"

definition dotnet_webgl_create_context ::
  "('h::len word, 'x, 's) emscripten_webgl_create \<Rightarrow> thread \<Rightarrow> string \<Rightarrow>
     c_int \<Rightarrow> c_int \<Rightarrow> c_int \<Rightarrow> c_int \<Rightarrow> c_int \<Rightarrow> 's \<Rightarrow> c_int \<times> 's" where
  "dotnet_webgl_create_context rt t canvasId p_alpha p_depth p_stencil p_antialias
       p_majorVersion s =
     (case emscripten_webgl_create_context rt t canvasId
             (context_attributes (emscripten_webgl_init_context_attributes rt)
                p_alpha p_depth p_stencil p_antialias p_majorVersion) s of
        (handle, s') \<Rightarrow> (ucast handle, s'))"

section \<open>Resizing the canvas (lines 85-101)\<close>

text \<open>
  The JavaScript scope in which the inline function runs. The global \<^verbatim>\<open>document\<close>
  exists on the main browser thread and is not defined in a worker's scope (\<open>None\<close>);
  reading it there throws a \<^verbatim>\<open>ReferenceError\<close>. \<^verbatim>\<open>document.querySelector\<close> throws a
  \<^verbatim>\<open>SyntaxError\<close> for a string that is not a selector (the empty string is none),
  and otherwise yields \<^verbatim>\<open>null\<close> or the first element that matches. Nothing in lines
  85-101 catches an exception, so the function either throws or returns the new scope.
  The elements are an explicit store, since two selectors may name one element.
  A JavaScript number is an exact rational here, and a property that may be
  \<^verbatim>\<open>undefined\<close> is an option.
\<close>

datatype js_error = SyntaxError | ReferenceError

datatype canvas_bitmap = Blank | Painted nat

datatype css_length = Css_unset | Css_px rat

record html_element =
  canvas_width :: int
  canvas_height :: int
  style_width :: css_length
  style_height :: css_length
  bitmap :: canvas_bitmap

record dom =
  querySelector :: "string \<Rightarrow> js_error + nat option"
  elements :: "nat \<Rightarrow> html_element"

record visual_viewport =
  viewport_scale :: "rat option"

record browser =
  document :: "dom option"
  devicePixelRatio :: "rat option"
  visualViewport :: "visual_viewport option"

definition UTF8ToString :: "string \<Rightarrow> string" where
  "UTF8ToString p = p"

text \<open>
  \<^verbatim>\<open>x || d\<close> on a number that may be undefined: \<open>d\<close> when \<open>x\<close> is undefined or zero.
\<close>

definition js_number_or :: "rat option \<Rightarrow> rat \<Rightarrow> rat" where
  "js_number_or x d = (case x of None \<Rightarrow> d | Some r \<Rightarrow> if r = 0 then d else r)"

text \<open>
  \<^verbatim>\<open>canvas.width\<close> and \<^verbatim>\<open>canvas.height\<close> are \<^verbatim>\<open>unsigned long\<close> attributes that
  reflect a content attribute with a default (300 and 150): the number assigned is
  converted modulo \<open>2 ^ 32\<close>, and a result above 2147483647, which is what a negative
  number gives, stores the default instead. Either assignment clears the bitmap
  (lines 83-84).
\<close>

definition reflect_unsigned_long :: "int \<Rightarrow> int \<Rightarrow> int" where
  "reflect_unsigned_long dflt n =
     (let u = n mod 2 ^ 32 in if u \<le> 2147483647 then u else dflt)"

definition set_canvas_width :: "int \<Rightarrow> html_element \<Rightarrow> html_element" where
  "set_canvas_width n el =
     el\<lparr>canvas_width := reflect_unsigned_long 300 n, bitmap := Blank\<rparr>"

definition set_canvas_height :: "int \<Rightarrow> html_element \<Rightarrow> html_element" where
  "set_canvas_height n el =
     el\<lparr>canvas_height := reflect_unsigned_long 150 n, bitmap := Blank\<rparr>"

text \<open>
  \<^verbatim>\<open>style.width = q + 'px'\<close>: a negative length is not a value of the property, and
  the assignment of an invalid value leaves the style as it was.
\<close>

definition set_style_px :: "rat \<Rightarrow> css_length \<Rightarrow> css_length" where
  "set_style_px q old = (if q < 0 then old else Css_px q)"

definition dotnet_set_canvas_size_js ::
  "string \<Rightarrow> c_int \<Rightarrow> c_int \<Rightarrow> 'a browser_scheme \<Rightarrow> js_error + 'a browser_scheme" where
  "dotnet_set_canvas_size_js canvasId width height s =
     (let canvasIdStr = UTF8ToString canvasId in
      case document s of
        None \<Rightarrow> Inl ReferenceError
      | Some doc \<Rightarrow>
          (case querySelector doc canvasIdStr of
             Inl thrown \<Rightarrow> Inl thrown
           | Inr None \<Rightarrow> Inr s
           | Inr (Some canvas) \<Rightarrow>
               let dpr = js_number_or (devicePixelRatio s) 1;
                   zoom = (case visualViewport s of
                             None \<Rightarrow> 1
                           | Some vv \<Rightarrow> js_number_or (viewport_scale vv) 1);
                   devicePixelScale = dpr * zoom;
                   el = elements doc canvas;
                   el = set_canvas_width (sint width) el;
                   el = set_canvas_height (sint height) el;
                   el = el\<lparr>style_width :=
                          set_style_px (of_int (sint width) / devicePixelScale)
                            (style_width el)\<rparr>;
                   el = el\<lparr>style_height :=
                          set_style_px (of_int (sint height) / devicePixelScale)
                            (style_height el)\<rparr>
               in Inr (s\<lparr>document := Some (doc\<lparr>elements := (elements doc)(canvas := el)\<rparr>)\<rparr>)))"

definition dotnet_set_canvas_size ::
  "string \<Rightarrow> c_int \<Rightarrow> c_int \<Rightarrow> 'a browser_scheme \<Rightarrow> js_error + 'a browser_scheme" where
  "dotnet_set_canvas_size canvasId width height s =
     dotnet_set_canvas_size_js canvasId width height s"

text \<open>
  What a scope shows of its surfaces: the element a descriptor names, if the lookup
  returns one, and the size and bitmap of an element.
\<close>

definition surface_named :: "'a browser_scheme \<Rightarrow> string \<Rightarrow> nat option" where
  "surface_named s canvasId =
     (case document s of
        None \<Rightarrow> None
      | Some doc \<Rightarrow>
          (case querySelector doc (UTF8ToString canvasId) of
             Inl thrown \<Rightarrow> None
           | Inr found \<Rightarrow> found))"





section \<open>Concrete environments\<close>

text \<open>
  Small environments on which the statements below are run. The state of the two
  threading runtimes is the list of arguments a callable has recorded. Thread 0 is the
  main browser thread in both; the first never carries out a dispatched request, the
  second carries it out at once.
\<close>

definition stalled_threading :: "(int list) emscripten_threading" where
  "stalled_threading =
     \<lparr>emscripten_is_main_browser_thread = (\<lambda>t. t = 0),
      emscripten_sync_run_in_main_runtime_thread = (\<lambda>t sig func args s. None),
      emscripten_async_run_in_main_runtime_thread = (\<lambda>t sig func args s. None)\<rparr>"

definition direct_threading :: "(int list) emscripten_threading" where
  "direct_threading =
     \<lparr>emscripten_is_main_browser_thread = (\<lambda>t. t = 0),
      emscripten_sync_run_in_main_runtime_thread = (\<lambda>t. em_call),
      emscripten_async_run_in_main_runtime_thread = (\<lambda>t. em_call)\<rparr>"

definition record_run :: "(int list) callable" where
  "record_run s = Some (s @ [0])"

definition record_arg :: "int \<Rightarrow> (int list) callable" where
  "record_arg a s = Some (s @ [a])"

text \<open>
  The scope of a page with one painted 300 x 150 canvas under the selector
  \<^verbatim>\<open>#canvas\<close>.
\<close>

definition demo_element :: html_element where
  "demo_element =
     \<lparr>canvas_width = 300, canvas_height = 150, style_width = Css_unset,
      style_height = Css_unset, bitmap = Painted 1\<rparr>"

definition demo_document :: dom where
  "demo_document =
     \<lparr>querySelector =
        (\<lambda>sel. if sel = [] then Inl SyntaxError
               else if sel = ''#canvas'' then Inr (Some 0)
               else Inr None),
      elements = (\<lambda>e. demo_element)\<rparr>"

definition demo_page :: browser where
  "demo_page =
     \<lparr>document = Some demo_document,
      devicePixelRatio = Some 2,
      visualViewport = Some \<lparr>viewport_scale = Some 1\<rparr>\<rparr>"

section \<open>Dispatch on the owner thread\<close>

text \<open>
  C1. On the main browser thread, \<^verbatim>\<open>dotnet_sync_main_thread\<close> and
  \<^verbatim>\<open>dotnet_sync_main_thread_arg\<close> have exactly the effect of one call of the callable
  (with the argument given), whatever the runtime's dispatch operations would do: the
  request is not handed to the runtime, and the wrapper returns when, and only if, the
  callable does.
\<close>

theorem owner_thread_runs_in_place:
  assumes "emscripten_is_main_browser_thread rt t"
  shows "dotnet_sync_main_thread rt t C s = C s \<and>
         dotnet_sync_main_thread_arg tgt rt t F a s = F a s"
  using assms by (simp add: dotnet_sync_main_thread_def dotnet_sync_main_thread_arg_def)

theorem owner_thread_runs_in_place_witness:
  "emscripten_is_main_browser_thread stalled_threading 0 \<and>
   dotnet_sync_main_thread stalled_threading 0 record_run [] = Some [0] \<and>
   dotnet_sync_main_thread_arg Wasm32 stalled_threading 0 record_arg 7 [] = Some [7]"
proof -
  have main: "emscripten_is_main_browser_thread stalled_threading 0"
    by (simp add: stalled_threading_def)
  from owner_thread_runs_in_place [OF main, of record_run "[]" Wasm32 record_arg 7]
  show ?thesis using main by (simp add: record_run_def record_arg_def)
qed

section \<open>The pointer-sized argument\<close>

lemma em_va_arg_id:
  assumes "em_ptr_int_t tgt v"
  shows "em_va_arg (em_ptr_bits tgt) v = v"
  using assms unfolding em_va_arg_def em_ptr_int_t_def
  by (simp add: signed_take_bit_int_eq_self)

lemma em_call_vptr:
  assumes "em_ptr_int_t tgt v"
  shows "em_call (EM_FUNC_SIG_VPTR tgt) (Func_vptr F) [v] s = F v s"
  using em_va_arg_id [OF assms] by (cases tgt) simp_all

text \<open>
  A signature narrower than the value does not carry it: read as \<^verbatim>\<open>EM_FUNC_SIG_VI\<close>,
  the 64-bit value \<open>2 ^ 40 + 5\<close> arrives as 5.
\<close>

lemma narrow_signature_cuts_argument:
  "em_call EM_FUNC_SIG_VI (Func_vptr record_arg) [2 ^ 40 + 5] [] = Some [5]"
  by (simp add: em_va_arg_def record_arg_def signed_take_bit_eq_take_bit_minus)

text \<open>
  C6. The payload is one integer of 32 bits on wasm32 and of 64 bits on wasm64, and in
  both builds the signature code sent with it announces one integer of exactly that
  width. For every value \<open>v\<close> of the type and every runtime: on the main browser thread
  the synchronous and the asynchronous wrapper call the callable with \<open>v\<close>; on any other
  thread they hand the runtime the request made of that signature code, the callable
  and the one argument \<open>v\<close>, and nothing else; and carrying out that request, which reads
  the argument at the width the signature announces, is calling the callable with \<open>v\<close>
  itself.
\<close>

theorem pointer_argument_fidelity:
  assumes "em_ptr_int_t tgt v"
  shows "em_ptr_bits tgt = (case tgt of Wasm32 \<Rightarrow> 32 | Wasm64 \<Rightarrow> 64) \<and>
         em_sig_params (EM_FUNC_SIG_VPTR tgt) = [em_ptr_bits tgt] \<and>
         dotnet_sync_main_thread_arg tgt rt t F v s =
           (if emscripten_is_main_browser_thread rt t then F v s
            else emscripten_sync_run_in_main_runtime_thread rt t
                   (EM_FUNC_SIG_VPTR tgt) (Func_vptr F) [v] s) \<and>
         dotnet_async_run_in_main_runtime_thread tgt rt t F v s =
           (if emscripten_is_main_browser_thread rt t then F v s
            else emscripten_async_run_in_main_runtime_thread rt t
                   (EM_FUNC_SIG_VPTR tgt) (Func_vptr F) [v] s) \<and>
         em_call (EM_FUNC_SIG_VPTR tgt) (Func_vptr F) [v] = F v"
proof -
  have bits: "em_ptr_bits tgt = (case tgt of Wasm32 \<Rightarrow> 32 | Wasm64 \<Rightarrow> 64)"
    by (cases tgt) simp_all
  have width: "em_sig_params (EM_FUNC_SIG_VPTR tgt) = [em_ptr_bits tgt]"
    by (cases tgt) simp_all
  have call: "em_call (EM_FUNC_SIG_VPTR tgt) (Func_vptr F) [v] = F v"
    by (rule ext) (rule em_call_vptr [OF assms])
  have sync: "dotnet_sync_main_thread_arg tgt rt t F v s =
           (if emscripten_is_main_browser_thread rt t then F v s
            else emscripten_sync_run_in_main_runtime_thread rt t
                   (EM_FUNC_SIG_VPTR tgt) (Func_vptr F) [v] s)"
    by (simp add: dotnet_sync_main_thread_arg_def)
  have async: "dotnet_async_run_in_main_runtime_thread tgt rt t F v s =
           (if emscripten_is_main_browser_thread rt t then F v s
            else emscripten_async_run_in_main_runtime_thread rt t
                   (EM_FUNC_SIG_VPTR tgt) (Func_vptr F) [v] s)"
    by (simp add: dotnet_async_run_in_main_runtime_thread_def)
  from bits width sync async call show ?thesis by blast
qed

text \<open>
  On wasm64 with \<open>v = 2 ^ 40\<close>: from worker thread 1 a runtime that carries the
  request out at once runs the callable with \<open>2 ^ 40\<close>, and a runtime that never
  carries it out never returns, the request having gone to it; on thread 0 the
  callable runs in place.
\<close>

theorem pointer_argument_fidelity_witness:
  "em_ptr_int_t Wasm64 (2 ^ 40) \<and>
   dotnet_sync_main_thread_arg Wasm64 direct_threading 1 record_arg (2 ^ 40) [] = Some [2 ^ 40] \<and>
   dotnet_async_run_in_main_runtime_thread Wasm64 direct_threading 1 record_arg (2 ^ 40) []
     = Some [2 ^ 40] \<and>
   dotnet_sync_main_thread_arg Wasm64 stalled_threading 1 record_arg (2 ^ 40) [] = None \<and>
   dotnet_async_run_in_main_runtime_thread Wasm64 stalled_threading 1 record_arg (2 ^ 40) []
     = None \<and>
   dotnet_sync_main_thread_arg Wasm64 stalled_threading 0 record_arg (2 ^ 40) [] = Some [2 ^ 40]"
proof -
  have val: "em_ptr_int_t Wasm64 (2 ^ 40)"
    by (simp add: em_ptr_int_t_def)
  from pointer_argument_fidelity [OF val, of direct_threading 1 record_arg "[]"]
    pointer_argument_fidelity [OF val, of stalled_threading 1 record_arg "[]"]
    pointer_argument_fidelity [OF val, of stalled_threading 0 record_arg "[]"]
  show ?thesis using val
    by (simp add: direct_threading_def stalled_threading_def record_arg_def em_va_arg_def
        signed_take_bit_int_eq_self)
qed

section \<open>Creating a context\<close>

text \<open>
  C9. Whatever the caller asks for and whatever the runtime's defaults are,
  \<^verbatim>\<open>dotnet_webgl_create_context\<close> hands the runtime an attribute structure with
  \<^verbatim>\<open>minorVersion = 0\<close>, \<^verbatim>\<open>enableExtensionsByDefault = 1\<close>,
  \<^verbatim>\<open>renderViaOffscreenBackBuffer = 0\<close>, \<^verbatim>\<open>explicitSwapControl = 0\<close>,
  \<^verbatim>\<open>preserveDrawingBuffer = 1\<close> and
  \<^verbatim>\<open>proxyContextToMainThread = EMSCRIPTEN_WEBGL_CONTEXT_PROXY_ALWAYS\<close>.
\<close>

theorem fixed_context_attributes:
  "dotnet_webgl_create_context rt t canvasId p_alpha p_depth p_stencil p_antialias
       p_majorVersion s =
     (case emscripten_webgl_create_context rt t canvasId
             (context_attributes (emscripten_webgl_init_context_attributes rt)
                p_alpha p_depth p_stencil p_antialias p_majorVersion) s of
        (handle, s') \<Rightarrow> (ucast handle, s')) \<and>
   minorVersion (context_attributes attrs p_alpha p_depth p_stencil p_antialias
       p_majorVersion) = 0 \<and>
   enableExtensionsByDefault (context_attributes attrs p_alpha p_depth p_stencil p_antialias
       p_majorVersion) = 1 \<and>
   renderViaOffscreenBackBuffer (context_attributes attrs p_alpha p_depth p_stencil
       p_antialias p_majorVersion) = 0 \<and>
   explicitSwapControl (context_attributes attrs p_alpha p_depth p_stencil p_antialias
       p_majorVersion) = 0 \<and>
   preserveDrawingBuffer (context_attributes attrs p_alpha p_depth p_stencil p_antialias
       p_majorVersion) = 1 \<and>
   proxyContextToMainThread (context_attributes attrs p_alpha p_depth p_stencil p_antialias
       p_majorVersion) = EMSCRIPTEN_WEBGL_CONTEXT_PROXY_ALWAYS"
  by (simp add: dotnet_webgl_create_context_def context_attributes_def)

section \<open>Resizing\<close>

text \<open>
  C10, as the code has it. When \<^verbatim>\<open>document.querySelector\<close> returns \<^verbatim>\<open>null\<close> for the
  descriptor (a selector that matches no element, in a scope that has a document),
  \<^verbatim>\<open>dotnet_set_canvas_size\<close> returns normally with the scope exactly as it was.
\<close>

theorem resize_without_match_is_noop:
  assumes "document s = Some doc"
    and "querySelector doc (UTF8ToString canvasId) = Inr None"
  shows "dotnet_set_canvas_size canvasId width height s = Inr s"
  using assms by (simp add: dotnet_set_canvas_size_def dotnet_set_canvas_size_js_def)

theorem resize_without_match_is_noop_witness:
  "document demo_page = Some demo_document \<and>
   querySelector demo_document (UTF8ToString ''#missing'') = Inr None \<and>
   dotnet_set_canvas_size ''#missing'' 800 600 demo_page = Inr demo_page"
proof -
  have doc: "document demo_page = Some demo_document"
    by (simp add: demo_page_def)
  have none: "querySelector demo_document (UTF8ToString ''#missing'') = Inr None"
    by (simp add: demo_document_def UTF8ToString_def)
  from resize_without_match_is_noop [OF doc none, of 800 600]
  show ?thesis using doc none by simp
qed

text \<open>
  C10, as the claim states it, fails: the empty descriptor names no surface of the
  page, and the call does not return normally; it throws the \<^verbatim>\<open>SyntaxError\<close> of
  \<^verbatim>\<open>document.querySelector\<close>.
\<close>

theorem malformed_selector_throws:
  "surface_named demo_page [] = None \<and>
   dotnet_set_canvas_size [] 800 600 demo_page = Inl SyntaxError"
  by (simp add: surface_named_def demo_page_def demo_document_def UTF8ToString_def
      dotnet_set_canvas_size_def dotnet_set_canvas_size_js_def)






end
